theory Spec2Isabelle
  imports Complex_Main "HOL-Library.Char_ord" "HOL-Library.Sublist"
begin

section \<open>JavaScript strings\<close>

text \<open>
  A JavaScript string is a sequence of UTF-16 code units and \<open>length\<close> counts them.
  The model takes \<^typ>\<open>string\<close> (a list of 8-bit characters), that is the strings
  whose code units are all below 256. White space (\<open>\s\<close> in a regular expression and
  what \<open>trim\<close> removes) is, below 256: tab, line feed, vertical tab, form feed,
  carriage return, space and the no-break space.
\<close>

definition js_space :: "char \<Rightarrow> bool" where
  "js_space c = (c = CHR 0x09 \<or> c = CHR 0x0A \<or> c = CHR 0x0B \<or> c = CHR 0x0C
     \<or> c = CHR 0x0D \<or> c = CHR 0x20 \<or> c = CHR 0xA0)"

definition trim :: "string \<Rightarrow> string" where
  "trim s = rev (dropWhile js_space (rev (dropWhile js_space s)))"

definition js_digit :: "char \<Rightarrow> bool" where
  "js_digit c = (CHR ''0'' \<le> c \<and> c \<le> CHR ''9'')"

definition js_upper :: "char \<Rightarrow> bool" where
  "js_upper c = (CHR ''A'' \<le> c \<and> c \<le> CHR ''Z'')"

definition js_lower :: "char \<Rightarrow> bool" where
  "js_lower c = (CHR ''a'' \<le> c \<and> c \<le> CHR ''z'')"

definition js_alpha :: "char \<Rightarrow> bool" where
  "js_alpha c = (js_upper c \<or> js_lower c)"

text \<open>\<open>\w\<close>: letters, digits and the underscore.\<close>

definition js_word :: "char \<Rightarrow> bool" where
  "js_word c = (js_alpha c \<or> js_digit c \<or> c = CHR ''_'')"

text \<open>
  \<open>toLowerCase\<close> on code units below 256: the ASCII capitals and the Latin-1
  capitals (0xC0 to 0xDE, the multiplication sign 0xD7 apart) move up by 32.
\<close>

definition lower_char :: "char \<Rightarrow> char" where
  "lower_char c =
     (if js_upper c \<or> (CHR 0xC0 \<le> c \<and> c \<le> CHR 0xDE \<and> c \<noteq> CHR 0xD7)
      then char_of (of_char c + (32::nat)) else c)"

definition toLowerCase :: "string \<Rightarrow> string" where
  "toLowerCase s = map lower_char s"

text \<open>The decimal digits of a number, as template literals print it.\<close>

fun show_nat :: "nat \<Rightarrow> string" where
  "show_nat n =
     (if n < 10 then [char_of (48 + n)]
      else show_nat (n div 10) @ [char_of (48 + n mod 10)])"

definition show_int :: "int \<Rightarrow> string" where
  "show_int i = (if i < 0 then CHR ''-'' # show_nat (nat (- i)) else show_nat (nat i))"

section \<open>Errors (types/errors.ts)\<close>

datatype ParserErrorCode =
    INVALID_TAG_FORMAT
  | UNKNOWN_TAG
  | CONTENT_VALIDATION_FAILED
  | ATTRIBUTE_VALIDATION_FAILED
  | BUFFER_OVERFLOW
  | MALFORMED_ATTRIBUTES
  | UNCLOSED_TAG
  | TRANSFORMATION_FAILED
  | INVALID_NESTING
  | MISMATCHED_CLOSING_TAG
  | INVALID_SELF_CLOSING
  | MAX_DEPTH_EXCEEDED
  | INVALID_CHILDREN
  | SCHEMA_VIOLATION

text \<open>
  The fields of \<open>ParserError\<close>. The only structured context the engine builds is the
  pair \<open>{expected, actual}\<close> of a mismatched closing tag.
\<close>

record ParserError =
  message :: string
  code :: ParserErrorCode
  err_context :: "(string \<times> string) option"
  path :: "string option"
  depth :: "int option"

definition new_ParserError :: "string \<Rightarrow> ParserErrorCode \<Rightarrow> ParserError" where
  "new_ParserError msg c =
     \<lparr> message = msg, code = c, err_context = None, path = None, depth = None \<rparr>"

datatype validation_kind = content_kind | attributes_kind | children_kind

definition kind_name :: "validation_kind \<Rightarrow> string" where
  "kind_name k = (case k of content_kind \<Rightarrow> ''content''
     | attributes_kind \<Rightarrow> ''attributes'' | children_kind \<Rightarrow> ''children'')"

definition codeMap :: "validation_kind \<Rightarrow> ParserErrorCode" where
  "codeMap k = (case k of content_kind \<Rightarrow> CONTENT_VALIDATION_FAILED
     | attributes_kind \<Rightarrow> ATTRIBUTE_VALIDATION_FAILED | children_kind \<Rightarrow> INVALID_CHILDREN)"

definition fromValidation :: "string \<Rightarrow> string \<Rightarrow> validation_kind \<Rightarrow> ParserError" where
  "fromValidation tagName validationMessage k =
     new_ParserError
       (kind_name k @ '' validation failed for tag '' @ [CHR 0x27] @ tagName @ [CHR 0x27]
          @ '': '' @ validationMessage)
       (codeMap k)"

definition fromTransformation :: "string \<Rightarrow> string \<Rightarrow> ParserError" where
  "fromTransformation tagName errorMessage =
     new_ParserError
       (''Transformation failed for tag '' @ [CHR 0x27] @ tagName @ [CHR 0x27] @ '': ''
          @ errorMessage)
       TRANSFORMATION_FAILED"

definition fromUnknownTag :: "string \<Rightarrow> ParserError" where
  "fromUnknownTag tagName = new_ParserError (''Unknown tag: '' @ tagName) UNKNOWN_TAG"

definition fromBufferOverflow :: "int \<Rightarrow> ParserError" where
  "fromBufferOverflow maxSize =
     new_ParserError
       (''Buffer overflow: exceeds maximum size of '' @ show_int maxSize @ '' bytes'')
       BUFFER_OVERFLOW"

definition fromMaxDepth :: "int \<Rightarrow> string option \<Rightarrow> ParserError" where
  "fromMaxDepth maxDepth pth =
     \<lparr> message = ''Maximum nesting depth of '' @ show_int maxDepth @ '' exceeded'',
       code = MAX_DEPTH_EXCEEDED, err_context = None, path = pth, depth = Some maxDepth \<rparr>"

definition fromMismatchedClosing :: "string \<Rightarrow> string \<Rightarrow> ParserError" where
  "fromMismatchedClosing expected actual =
     \<lparr> message = ''Mismatched closing tag: expected '' @ expected @ '', got '' @ actual,
       code = MISMATCHED_CLOSING_TAG, err_context = Some (expected, actual), path = None,
       depth = None \<rparr>"

text \<open>
  What a \<open>throw\<close> carries: a \<open>ParserError\<close>, or any other exception (a \<open>TypeError\<close>
  of the runtime, an error thrown by a callback of the caller), kept by its message.
\<close>

datatype js_exn = Parser_Error ParserError | Other_Error string

section \<open>Input buffer (core/buffer-manager.ts)\<close>

record BufferManager =
  buffer :: string
  maxSize :: int
  totalBytesProcessed :: nat

definition new_BufferManager :: "int \<Rightarrow> BufferManager" where
  "new_BufferManager m = \<lparr> buffer = [], maxSize = m, totalBytesProcessed = 0 \<rparr>"

text \<open>
  \<open>append\<close> returns the exception it throws, if any, beside the buffer as the call
  leaves it. The chunk is a string by its type, so the \<open>typeof\<close> guard never fires.
\<close>

definition append_buf :: "BufferManager \<Rightarrow> string \<Rightarrow> js_exn option \<times> BufferManager" where
  "append_buf b chunk =
     (if int (length (buffer b)) + int (length chunk) > maxSize b
      then (Some (Parser_Error (fromBufferOverflow (maxSize b))), b)
      else (None, b\<lparr> buffer := buffer b @ chunk,
                      totalBytesProcessed := totalBytesProcessed b + length chunk \<rparr>))"

definition getContent :: "BufferManager \<Rightarrow> string" where
  "getContent b = buffer b"

definition getSize :: "BufferManager \<Rightarrow> nat" where
  "getSize b = length (buffer b)"

definition getTotalProcessed :: "BufferManager \<Rightarrow> nat" where
  "getTotalProcessed b = totalBytesProcessed b"

definition clear :: "BufferManager \<Rightarrow> BufferManager" where
  "clear b = b\<lparr> buffer := [] \<rparr>"

definition consume :: "BufferManager \<Rightarrow> int \<Rightarrow> string \<times> BufferManager" where
  "consume b len =
     (if len \<le> 0 then ([], b)
      else if len \<ge> int (length (buffer b)) then (buffer b, b\<lparr> buffer := [] \<rparr>)
      else (take (nat len) (buffer b), b\<lparr> buffer := drop (nat len) (buffer b) \<rparr>))"





section \<open>Regular expressions, as the runtime matches them\<close>

text \<open>
  The tag patterns are regular expression literals. They are kept as terms of the
  datatype \<open>rx\<close>, and \<open>rx_run\<close> is the backtracking matcher of the language standard:
  from a state (the rest of the input and the captures so far) it lists every way the
  pattern can match there, in the order in which backtracking tries them, so the head
  of the list is the match that \<open>exec\<close> reports. \<open>Star True\<close> is the greedy star and
  \<open>Star False\<close> the lazy one; as in the standard, an iteration that consumes nothing
  is not taken. \<open>Grp n\<close> is the n-th capture group and \<open>Bref n\<close> a back reference
  (an unset group matches the empty string).
\<close>

datatype rx =
    Chr "char \<Rightarrow> bool"
  | Eps
  | Seq rx rx
  | Alt rx rx
  | Star bool rx
  | Grp nat rx
  | Bref nat

type_synonym caps = "nat \<Rightarrow> string option"

type_synonym rx_state = "string \<times> caps"

primrec star_run ::
  "bool \<Rightarrow> (rx_state \<Rightarrow> rx_state list) \<Rightarrow> nat \<Rightarrow> rx_state \<Rightarrow> rx_state list" where
  "star_run greedy f 0 st = [st]"
| "star_run greedy f (Suc n) st =
     (let more = concat (map (star_run greedy f n)
                   (filter (\<lambda>st'. length (fst st') < length (fst st)) (f st)))
      in if greedy then more @ [st] else st # more)"

primrec rx_run :: "rx \<Rightarrow> rx_state \<Rightarrow> rx_state list" where
  "rx_run (Chr P) =
     (\<lambda>st. case fst st of [] \<Rightarrow> [] | x # xs \<Rightarrow> if P x then [(xs, snd st)] else [])"
| "rx_run Eps = (\<lambda>st. [st])"
| "rx_run (Seq a b) = (\<lambda>st. concat (map (rx_run b) (rx_run a st)))"
| "rx_run (Alt a b) = (\<lambda>st. rx_run a st @ rx_run b st)"
| "rx_run (Star greedy a) = (\<lambda>st. star_run greedy (rx_run a) (length (fst st)) st)"
| "rx_run (Grp n a) =
     (\<lambda>st. map (\<lambda>st'. (fst st',
                (snd st')(n := Some (take (length (fst st) - length (fst st')) (fst st)))))
            (rx_run a st))"
| "rx_run (Bref n) =
     (\<lambda>st. case snd st n of
        None \<Rightarrow> [st]
      | Some w \<Rightarrow> if take (length w) (fst st) = w then [(drop (length w) (fst st), snd st)]
                  else [])"

definition lit :: "char \<Rightarrow> rx" where
  "lit c = Chr (\<lambda>x. x = c)"

definition opt :: "rx \<Rightarrow> rx" where
  "opt r = Alt r Eps"

definition plus :: "rx \<Rightarrow> rx" where
  "plus r = Seq r (Star True r)"

definition seqs :: "rx list \<Rightarrow> rx" where
  "seqs rs = foldr Seq rs Eps"

text \<open>
  The result of \<open>exec\<close>: where the match starts, the matched text (\<open>match[0]\<close>) and the
  capture groups (\<open>match[n]\<close>; \<open>None\<close> is \<open>undefined\<close>).
\<close>

record RegExpMatch =
  index :: nat
  matched :: string
  groups :: caps

text \<open>\<open>rx_search r s i\<close> tries the pattern at each position of \<open>s\<close> in turn, \<open>i\<close> being
  the index of the head of \<open>s\<close> in the whole input.\<close>

fun rx_search :: "rx \<Rightarrow> string \<Rightarrow> nat \<Rightarrow> RegExpMatch option" where
  "rx_search r s i =
     (case rx_run r (s, \<lambda>n. None) of
        st # _ \<Rightarrow>
          Some \<lparr> index = i, matched = take (length s - length (fst st)) s, groups = snd st \<rparr>
      | [] \<Rightarrow> (case s of [] \<Rightarrow> None | _ # xs \<Rightarrow> rx_search r xs (Suc i)))"

text \<open>\<open>exec\<close> of a pattern with the global flag, from \<open>lastIndex\<close>. The caller sets
  \<open>lastIndex\<close> to the end of the match for the next call.\<close>

definition rx_exec :: "rx \<Rightarrow> string \<Rightarrow> nat \<Rightarrow> RegExpMatch option" where
  "rx_exec r s lastIndex =
     (if lastIndex > length s then None else rx_search r (drop lastIndex s) lastIndex)"

text \<open>\<open>test\<close> of a pattern anchored at both ends (\<open>/^...$/\<close>).\<close>

definition rx_test_anchored :: "rx \<Rightarrow> string \<Rightarrow> bool" where
  "rx_test_anchored r s = list_ex (\<lambda>st. fst st = []) (rx_run r (s, \<lambda>n. None))"

section \<open>Tag patterns (core/tag-matcher.ts)\<close>

text \<open>\<open>[a-zA-Z][a-zA-Z0-9_-]*\<close>\<close>

definition name_char :: "char \<Rightarrow> bool" where
  "name_char c = (js_alpha c \<or> js_digit c \<or> c = CHR ''_'' \<or> c = CHR ''-'')"

definition TAG_NAME :: rx where
  "TAG_NAME = Seq (Chr js_alpha) (Star True (Chr name_char))"

text \<open>\<open>(?:\s+[^>]*)?\<close>\<close>

definition not_gt :: "char \<Rightarrow> bool" where
  "not_gt c = (c \<noteq> CHR ''>'')"

definition TAG_ATTRS :: rx where
  "TAG_ATTRS = opt (Seq (plus (Chr js_space)) (Star True (Chr not_gt)))"

text \<open>\<open>/<([a-zA-Z][a-zA-Z0-9_-]*)((?:\s+[^>]*)?)\s*\/>/g\<close>\<close>

definition SELF_CLOSING :: rx where
  "SELF_CLOSING = seqs [lit CHR ''<'', Grp 1 TAG_NAME, Grp 2 TAG_ATTRS,
     Star True (Chr js_space), lit CHR ''/'', lit CHR ''>'']"

text \<open>\<open>/<([a-zA-Z][a-zA-Z0-9_-]*)((?:\s+[^>]*)?)\s*>/g\<close>\<close>

definition OPENING :: rx where
  "OPENING = seqs [lit CHR ''<'', Grp 1 TAG_NAME, Grp 2 TAG_ATTRS,
     Star True (Chr js_space), lit CHR ''>'']"

text \<open>\<open>/<\/([a-zA-Z][a-zA-Z0-9_-]*)\s*>/g\<close>\<close>

definition CLOSING :: rx where
  "CLOSING = seqs [lit CHR ''<'', lit CHR ''/'', Grp 1 TAG_NAME,
     Star True (Chr js_space), lit CHR ''>'']"

text \<open>\<open>/<([a-zA-Z][a-zA-Z0-9_-]*)((?:\s+[^>]*)?)\s*>(.*?)<\/\1\s*>/gs\<close>; with the
  \<open>s\<close> flag the dot matches every character.\<close>

definition any_char :: "char \<Rightarrow> bool" where
  "any_char c = True"

definition COMPLETE :: rx where
  "COMPLETE = seqs [lit CHR ''<'', Grp 1 TAG_NAME, Grp 2 TAG_ATTRS,
     Star True (Chr js_space), lit CHR ''>'', Grp 3 (Star False (Chr any_char)),
     lit CHR ''<'', lit CHR ''/'', Bref 1, Star True (Chr js_space), lit CHR ''>'']"

text \<open>\<open>/(\w+)(?:=(?:"([^"]*)"|'([^']*)'|([^\s>]+)))?/g\<close>\<close>

definition not_dquote :: "char \<Rightarrow> bool" where
  "not_dquote c = (c \<noteq> CHR 0x22)"

definition not_squote :: "char \<Rightarrow> bool" where
  "not_squote c = (c \<noteq> CHR 0x27)"

definition unquoted_char :: "char \<Rightarrow> bool" where
  "unquoted_char c = (\<not> js_space c \<and> c \<noteq> CHR ''>'')"

definition ATTRIBUTES :: rx where
  "ATTRIBUTES =
     Seq (Grp 1 (plus (Chr js_word)))
       (opt (Seq (lit CHR ''='')
         (Alt (seqs [lit CHR 0x22, Grp 2 (Star True (Chr not_dquote)), lit CHR 0x22])
           (Alt (seqs [lit CHR 0x27, Grp 3 (Star True (Chr not_squote)), lit CHR 0x27])
              (Grp 4 (plus (Chr unquoted_char)))))))"

text \<open>\<open>/^\d+$/\<close> and \<open>/^\d*\.\d+$/\<close>\<close>

definition INTEGER_RX :: rx where
  "INTEGER_RX = plus (Chr js_digit)"

definition DECIMAL_RX :: rx where
  "DECIMAL_RX = seqs [Star True (Chr js_digit), lit CHR ''.'', plus (Chr js_digit)]"

section \<open>Every match of a tag pattern consumes input\<close>

text \<open>
  The scanning loops of the matcher call \<open>exec\<close> until it finds nothing more. They end
  because none of the patterns matches the empty string, so \<open>lastIndex\<close> grows with
  every match.
\<close>

lemma star_run_suffix:
  assumes f: "\<And>st st'. st' \<in> set (f st) \<Longrightarrow> suffix (fst st') (fst st)"
  shows "st' \<in> set (star_run g f n st) \<Longrightarrow> suffix (fst st') (fst st)"
proof (induction n arbitrary: st st')
  case 0
  then show ?case by simp
next
  case (Suc n)
  from Suc.prems consider "st' = st"
    | mid where "mid \<in> set (f st)" "st' \<in> set (star_run g f n mid)"
    by (auto simp: Let_def split: if_splits)
  then show ?case
  proof cases
    case 1
    then show ?thesis by simp
  next
    case 2
    then show ?thesis using Suc.IH f suffix_order.trans by blast
  qed
qed

lemma rx_run_suffix: "st' \<in> set (rx_run r st) \<Longrightarrow> suffix (fst st') (fst st)"
proof (induction r arbitrary: st st')
  case (Chr P)
  then show ?case by (cases st) (auto simp: suffix_def split: list.splits if_splits)
next
  case Eps
  then show ?case by simp
next
  case (Seq a b)
  from Seq.prems obtain mid where mid: "mid \<in> set (rx_run a st)" "st' \<in> set (rx_run b mid)"
    by auto
  from Seq.IH(1) [OF mid(1)] Seq.IH(2) [OF mid(2)] show ?case
    by (rule suffix_order.trans [rotated])
next
  case (Alt a b)
  from Alt.prems have "st' \<in> set (rx_run a st) \<or> st' \<in> set (rx_run b st)" by simp
  then show ?case using Alt.IH by blast
next
  case (Star g a)
  from Star.prems have "st' \<in> set (star_run g (rx_run a) (length (fst st)) st)" by simp
  then show ?case using star_run_suffix [of "rx_run a"] Star.IH by blast
next
  case (Grp n a)
  from Grp.prems obtain st2 where st2: "st2 \<in> set (rx_run a st)" "fst st' = fst st2" by auto
  from Grp.IH [OF st2(1)] st2(2) show ?case by simp
next
  case (Bref n)
  show ?case
  proof (cases "snd st n")
    case None
    then show ?thesis using Bref.prems by simp
  next
    case (Some w)
    then show ?thesis using Bref.prems by (simp add: suffix_drop split: if_splits)
  qed
qed

primrec rx_nullable :: "rx \<Rightarrow> bool" where
  "rx_nullable (Chr P) = False"
| "rx_nullable Eps = True"
| "rx_nullable (Seq a b) = (rx_nullable a \<and> rx_nullable b)"
| "rx_nullable (Alt a b) = (rx_nullable a \<or> rx_nullable b)"
| "rx_nullable (Star g a) = True"
| "rx_nullable (Grp n a) = rx_nullable a"
| "rx_nullable (Bref n) = True"

lemma rx_run_shorter:
  "\<not> rx_nullable r \<Longrightarrow> st' \<in> set (rx_run r st) \<Longrightarrow> length (fst st') < length (fst st)"
proof (induction r arbitrary: st st')
  case (Chr P)
  then show ?case by (cases st) (auto split: list.splits if_splits)
next
  case (Seq a b)
  from Seq.prems obtain mid where mid: "mid \<in> set (rx_run a st)" "st' \<in> set (rx_run b mid)"
    by auto
  have le1: "length (fst mid) \<le> length (fst st)" and le2: "length (fst st') \<le> length (fst mid)"
    using mid rx_run_suffix suffix_length_le by blast+
  show ?case
  proof (cases "rx_nullable a")
    case False
    from Seq.IH(1) [OF False mid(1)] le2 show ?thesis by simp
  next
    case True
    then have nb: "\<not> rx_nullable b" using Seq.prems by simp
    from Seq.IH(2) [OF nb mid(2)] le1 show ?thesis by simp
  qed
next
  case (Alt a b)
  from Alt.prems have na: "\<not> rx_nullable a" and nb: "\<not> rx_nullable b" by simp_all
  from Alt.prems have "st' \<in> set (rx_run a st) \<or> st' \<in> set (rx_run b st)" by simp
  then show ?case using Alt.IH(1) [OF na] Alt.IH(2) [OF nb] by blast
next
  case (Grp n a)
  from Grp.prems obtain st2 where st2: "st2 \<in> set (rx_run a st)" "fst st' = fst st2" by auto
  from Grp.prems have "\<not> rx_nullable a" by simp
  from Grp.IH [OF this st2(1)] st2(2) show ?case by simp
qed simp_all

lemma rx_search_bounds:
  "rx_search r s i = Some m \<Longrightarrow> \<not> rx_nullable r \<Longrightarrow>
   i \<le> index m \<and> matched m \<noteq> [] \<and> index m + length (matched m) \<le> i + length s"
proof (induction r s i rule: rx_search.induct)
  case (1 r s i)
  show ?case
  proof (cases "rx_run r (s, \<lambda>n. None)")
    case Nil
    then obtain x xs where s: "s = x # xs" and rec: "rx_search r xs (Suc i) = Some m"
      using "1.prems"(1) by (auto simp del: rx_search.simps simp add: rx_search.simps [of r s] split: list.splits)
    from "1.IH" [OF Nil s rec "1.prems"(2)] s show ?thesis by simp
  next
    case (Cons st rest)
    then have m: "m = \<lparr> index = i, matched = take (length s - length (fst st)) s, groups = snd st \<rparr>"
      using "1.prems"(1) by (simp del: rx_search.simps add: rx_search.simps [of r s])
    have "length (fst st) < length s"
      using rx_run_shorter [OF "1.prems"(2), of st "(s, \<lambda>n. None)"] Cons by simp
    then show ?thesis using m by auto
  qed
qed

lemma rx_exec_bounds:
  "rx_exec r s i = Some m \<Longrightarrow> \<not> rx_nullable r \<Longrightarrow>
   i \<le> index m \<and> matched m \<noteq> [] \<and> index m + length (matched m) \<le> length s"
  using rx_search_bounds [of r "drop i s" i m]
  by (auto simp: rx_exec_def split: if_splits)

lemma not_nullable_patterns:
  "\<not> rx_nullable SELF_CLOSING" "\<not> rx_nullable OPENING" "\<not> rx_nullable CLOSING"
  "\<not> rx_nullable COMPLETE" "\<not> rx_nullable ATTRIBUTES"
  by (simp_all add: SELF_CLOSING_def OPENING_def CLOSING_def COMPLETE_def ATTRIBUTES_def
      seqs_def lit_def plus_def)


section \<open>Tag matcher (core/tag-matcher.ts)\<close>

text \<open>
  An attribute value is a boolean, a number or a string. JavaScript has one number type;
  the model keeps the exact rational value of the decimal numeral (the rounding of
  \<open>parseInt\<close> and \<open>parseFloat\<close> to a double is not modelled). An attribute object is
  an association list in insertion order.
\<close>

datatype AttrValue = ABool bool | ANum rat | AStr string

type_synonym Attributes = "(string \<times> AttrValue) list"

text \<open>Assignment to a key of an object or of a \<open>Map\<close>, kept as an association list.\<close>

fun assoc_set :: "'k \<Rightarrow> 'v \<Rightarrow> ('k \<times> 'v) list \<Rightarrow> ('k \<times> 'v) list" where
  "assoc_set k v [] = [(k, v)]"
| "assoc_set k v (kv # rest) =
     (if fst kv = k then (k, v) # rest else kv # assoc_set k v rest)"

text \<open>The object spread \<open>{ ...a, ...b }\<close>, where either may be \<open>undefined\<close>.\<close>

definition spread :: "Attributes option \<Rightarrow> Attributes option \<Rightarrow> Attributes" where
  "spread a b =
     foldl (\<lambda>acc kv. assoc_set (fst kv) (snd kv) acc) []
       ((case a of None \<Rightarrow> [] | Some xs \<Rightarrow> xs) @ (case b of None \<Rightarrow> [] | Some ys \<Rightarrow> ys))"

datatype match_type = opening_tag | closing_tag | self_closing_tag | complete_tag

record TagMatch =
  tagName :: string
  content :: string
  attributes :: "Attributes option"
  startIndex :: nat
  endIndex :: nat
  fullMatch :: string
  type :: match_type
  depth :: "int option"
  path :: "string option"

record TagMatcher =
  caseSensitive :: bool

definition normalizeTagName :: "TagMatcher \<Rightarrow> string \<Rightarrow> string" where
  "normalizeTagName tm name = (if caseSensitive tm then name else toLowerCase name)"

text \<open>The value of a string of decimal digits.\<close>

definition decimal_value :: "string \<Rightarrow> nat" where
  "decimal_value ds = foldl (\<lambda>acc c. 10 * acc + (of_char c - 48)) 0 ds"

text \<open>
  \<open>parseInt(value, 10)\<close> and \<open>parseFloat(value)\<close> read the longest numeral at the head
  of the string. They are called only on strings that are such a numeral as a whole.
\<close>

definition parseInt :: "string \<Rightarrow> nat" where
  "parseInt s = decimal_value (takeWhile js_digit s)"

definition parseFloat :: "string \<Rightarrow> rat" where
  "parseFloat s =
     (let whole = takeWhile js_digit s;
          frac = takeWhile js_digit (drop (Suc (length whole)) s)
      in of_nat (decimal_value whole) + of_nat (decimal_value frac) / 10 ^ length frac)"

text \<open>\<open>parseAttributeValue(value: string | boolean)\<close>; \<open>Inl\<close> is a string.\<close>

definition parseAttributeValue :: "string + bool \<Rightarrow> AttrValue" where
  "parseAttributeValue v =
     (case v of
        Inr b \<Rightarrow> ABool b
      | Inl s \<Rightarrow>
          if rx_test_anchored INTEGER_RX s then ANum (of_nat (parseInt s))
          else if rx_test_anchored DECIMAL_RX s then ANum (parseFloat s)
          else if s = ''true'' then ABool True
          else if s = ''false'' then ABool False
          else AStr s)"

text \<open>\<open>doubleQuotedValue ?? singleQuotedValue ?? unquotedValue ?? true\<close>\<close>

definition attribute_token_value :: "RegExpMatch \<Rightarrow> string + bool" where
  "attribute_token_value m =
     (case groups m 2 of
        Some d \<Rightarrow> Inl d
      | None \<Rightarrow> (case groups m 3 of
          Some q \<Rightarrow> Inl q
        | None \<Rightarrow> (case groups m 4 of Some u \<Rightarrow> Inl u | None \<Rightarrow> Inr True)))"

text \<open>The \<open>while\<close> loop of \<open>parseAttributes\<close>, from a value of \<open>lastIndex\<close>.\<close>

function parseAttributes_loop :: "string \<Rightarrow> nat \<Rightarrow> Attributes \<Rightarrow> Attributes" where
  "parseAttributes_loop attributesStr lastIndex attrs =
     (case rx_exec ATTRIBUTES attributesStr lastIndex of
        None \<Rightarrow> attrs
      | Some m \<Rightarrow>
          (case groups m 1 of
             None \<Rightarrow> parseAttributes_loop attributesStr (index m + length (matched m)) attrs
           | Some name \<Rightarrow>
               if name = []
               then parseAttributes_loop attributesStr (index m + length (matched m)) attrs
               else parseAttributes_loop attributesStr (index m + length (matched m))
                      (assoc_set name (parseAttributeValue (attribute_token_value m)) attrs)))"
  by pat_completeness auto
termination
proof (relation "measure (\<lambda>(s, i, a). Suc (length s) - i)")
  show "wf (measure (\<lambda>(s, i, a). Suc (length s) - i))" by simp
next
  fix attributesStr lastIndex and attrs :: Attributes and m
  assume "rx_exec ATTRIBUTES attributesStr lastIndex = Some m"
  from rx_exec_bounds [OF this not_nullable_patterns(5)]
  have "Suc (length attributesStr) - (index m + length (matched m))
        < Suc (length attributesStr) - lastIndex"
    by (cases "matched m") auto
  then show "((attributesStr, index m + length (matched m), attrs),
              (attributesStr, lastIndex, attrs)) \<in> measure (\<lambda>(s, i, a). Suc (length s) - i)"
    and "\<And>name. ((attributesStr, index m + length (matched m), attrs),
              (attributesStr, lastIndex, attrs)) \<in> measure (\<lambda>(s, i, a). Suc (length s) - i)"
    and "\<And>name. ((attributesStr, index m + length (matched m),
               assoc_set name (parseAttributeValue (attribute_token_value m)) attrs),
              (attributesStr, lastIndex, attrs)) \<in> measure (\<lambda>(s, i, a). Suc (length s) - i)"
    by simp_all
qed

definition parseAttributes :: "string \<Rightarrow> Attributes option" where
  "parseAttributes attributesStr =
     (if trim attributesStr = [] then None
      else (let attrs = parseAttributes_loop attributesStr 0 []
            in if length attrs > 0 then Some attrs else None))"

text \<open>\<open>match[n] || ''\<close>\<close>

definition group_or_empty :: "RegExpMatch \<Rightarrow> nat \<Rightarrow> string" where
  "group_or_empty m n = (case groups m n of None \<Rightarrow> [] | Some w \<Rightarrow> w)"

text \<open>\<open>createTagMatch\<close>; group 1 takes part in every match of the three patterns, so
  \<open>tagName!\<close> is its text.\<close>

definition createTagMatch :: "TagMatcher \<Rightarrow> RegExpMatch \<Rightarrow> nat \<Rightarrow> match_type \<Rightarrow> TagMatch" where
  "createTagMatch tm m start ty =
     \<lparr> tagName = normalizeTagName tm (group_or_empty m 1),
       content = [],
       attributes = (if ty = closing_tag then None else parseAttributes (group_or_empty m 2)),
       startIndex = start + index m,
       endIndex = start + index m + length (matched m),
       fullMatch = matched m,
       type = ty,
       depth = None,
       path = None \<rparr>"

text \<open>One of the three attempts of \<open>findNextTag\<close>: the match replaces the earliest one so
  far when it starts strictly before it (\<open>None\<close> is the initial \<open>Infinity\<close>).\<close>

definition earlier_match ::
  "TagMatcher \<Rightarrow> nat \<Rightarrow> match_type \<Rightarrow> RegExpMatch option \<Rightarrow> (TagMatch \<times> nat) option
     \<Rightarrow> (TagMatch \<times> nat) option" where
  "earlier_match tm start ty found earliest =
     (case found of
        None \<Rightarrow> earliest
      | Some m \<Rightarrow>
          if (case earliest of None \<Rightarrow> True | Some e \<Rightarrow> index m < snd e)
          then Some (createTagMatch tm m start ty, index m)
          else earliest)"

definition findNextTag :: "TagMatcher \<Rightarrow> string \<Rightarrow> nat \<Rightarrow> TagMatch option" where
  "findNextTag tm buf start =
     (let searchBuffer = drop start buf;
          e1 = earlier_match tm start self_closing_tag (rx_exec SELF_CLOSING searchBuffer 0) None;
          e2 = earlier_match tm start opening_tag (rx_exec OPENING searchBuffer 0) e1;
          e3 = earlier_match tm start closing_tag (rx_exec CLOSING searchBuffer 0) e2
      in map_option fst e3)"

text \<open>The \<open>while\<close> loop of \<open>findCompleteTags\<close>, from a value of \<open>lastIndex\<close>.\<close>

function findCompleteTags_loop :: "TagMatcher \<Rightarrow> string \<Rightarrow> nat \<Rightarrow> TagMatch list" where
  "findCompleteTags_loop tm buf lastIndex =
     (case rx_exec COMPLETE buf lastIndex of
        None \<Rightarrow> []
      | Some m \<Rightarrow>
          (if group_or_empty m 1 = [] \<or> groups m 3 = None
           then findCompleteTags_loop tm buf (index m + length (matched m))
           else \<lparr> tagName = normalizeTagName tm (group_or_empty m 1),
                  content = group_or_empty m 3,
                  attributes = parseAttributes (group_or_empty m 2),
                  startIndex = index m,
                  endIndex = index m + length (matched m),
                  fullMatch = matched m,
                  type = complete_tag,
                  depth = None,
                  path = None \<rparr>
                # findCompleteTags_loop tm buf (index m + length (matched m))))"
  by pat_completeness auto
termination
proof (relation "measure (\<lambda>(tm, s, i). Suc (length s) - i)")
  show "wf (measure (\<lambda>(tm, s, i). Suc (length s) - i))" by simp
next
  fix tm :: TagMatcher and buf lastIndex m
  assume "rx_exec COMPLETE buf lastIndex = Some m"
  from rx_exec_bounds [OF this not_nullable_patterns(4)]
  have "Suc (length buf) - (index m + length (matched m)) < Suc (length buf) - lastIndex"
    by (cases "matched m") auto
  then show "((tm, buf, index m + length (matched m)), (tm, buf, lastIndex))
              \<in> measure (\<lambda>(tm, s, i). Suc (length s) - i)"
    by simp
  then show "((tm, buf, index m + length (matched m)), (tm, buf, lastIndex))
              \<in> measure (\<lambda>(tm, s, i). Suc (length s) - i)" .
qed

definition findCompleteTags :: "TagMatcher \<Rightarrow> string \<Rightarrow> TagMatch list" where
  "findCompleteTags tm buf = findCompleteTags_loop tm buf 0"

definition extractTextContent :: "string \<Rightarrow> nat \<Rightarrow> nat \<Rightarrow> string" where
  "extractTextContent buf start end_index = take (end_index - start) (drop start buf)"

section \<open>Tags and tag definitions (types/base.ts, types/schema.ts)\<close>

datatype ValidationResult = Valid | Invalid string

record BaseTag =
  tagName :: string
  content :: string
  attributes :: "Attributes option"

text \<open>
  The records of nested mode refer to one another (a record to its parent, the parent to
  its children), and the engine changes a record while its parent, the stack and the
  observers hold it. So the records live in a store, the list \<open>heap\<close> of the engine, and
  a reference is an index into it; \<open>children\<close> and \<open>parent\<close> hold references. The
  engine always sets \<open>children\<close>, \<open>path\<close>, \<open>depth\<close> and \<open>isSelfClosing\<close>.
\<close>

record NestedTag = BaseTag +
  children :: "nat list"
  parent :: "nat option"
  path :: string
  depth :: int
  isSelfClosing :: bool

text \<open>A tag as an observer or a callback receives it: a record of flat mode, or a
  reference of nested mode with the record as it is at that moment.\<close>

datatype TagVal = FlatTag BaseTag | NestedRef nat NestedTag

text \<open>
  The callbacks of a definition are functions of the caller. A callback returns its
  result or throws (\<open>Inl\<close>); the model takes them to be functions of their arguments
  that do not call back into the engine. \<open>validateChildren\<close> receives the child records.
  \<open>onContentUpdate\<close> and \<open>onChildAdded\<close> are never called by the engine and are left
  out.
\<close>

record TagDefinition =
  tagName :: string
  validateContent :: "(string \<Rightarrow> js_exn + ValidationResult) option"
  validateAttributes :: "(Attributes option \<Rightarrow> js_exn + ValidationResult) option"
  transformContent :: "(string \<Rightarrow> js_exn + string) option"
  transformAttributes :: "(Attributes option \<Rightarrow> js_exn + Attributes option) option"
  validateChildren :: "(NestedTag list \<Rightarrow> js_exn + ValidationResult) option"
  allowChildren :: "bool option"
  allowSelfClosing :: "bool option"
  defaultContent :: "string option"
  defaultAttributes :: "Attributes option"
  onStart :: "(string \<Rightarrow> Attributes option \<Rightarrow> js_exn option) option"
  onComplete :: "(TagVal \<Rightarrow> js_exn option) option"

text \<open>A definition with a name and nothing else, as \<open>{ tagName: name }\<close>.\<close>

definition plain_definition :: "string \<Rightarrow> TagDefinition" where
  "plain_definition name =
     \<lparr> tagName = name, validateContent = None, validateAttributes = None,
       transformContent = None, transformAttributes = None, validateChildren = None,
       allowChildren = None, allowSelfClosing = None, defaultContent = None,
       defaultAttributes = None, onStart = None, onComplete = None \<rparr>"

section \<open>Validation and transformation (core/validator.ts, core/transformer.ts)\<close>

text \<open>What one validator call leads to: nothing, or the exception thrown.\<close>

definition check_result ::
  "string \<Rightarrow> validation_kind \<Rightarrow> js_exn + ValidationResult \<Rightarrow> js_exn option" where
  "check_result name k r =
     (case r of
        Inl e \<Rightarrow> Some e
      | Inr Valid \<Rightarrow> None
      | Inr (Invalid msg) \<Rightarrow> Some (Parser_Error (fromValidation name msg k)))"

text \<open>\<open>TagValidator.validate\<close>. The last argument is \<open>tag.children\<close> where the tag has
  the field (nested mode), as the child records.\<close>

definition validate ::
  "TagDefinition \<Rightarrow> string \<Rightarrow> string \<Rightarrow> Attributes option \<Rightarrow> NestedTag list option
     \<Rightarrow> js_exn option" where
  "validate d name cont attrs childs =
     (case (case validateContent d of
              Some f \<Rightarrow> if cont \<noteq> [] then check_result name content_kind (f cont) else None
            | None \<Rightarrow> None) of
        Some e \<Rightarrow> Some e
      | None \<Rightarrow>
         (case (case validateAttributes d of
                  Some f \<Rightarrow> if attrs \<noteq> None then check_result name attributes_kind (f attrs)
                            else None
                | None \<Rightarrow> None) of
            Some e \<Rightarrow> Some e
          | None \<Rightarrow>
             (case validateChildren d of
                Some f \<Rightarrow> (case childs of
                             Some cs \<Rightarrow> check_result name children_kind (f cs)
                           | None \<Rightarrow> None)
              | None \<Rightarrow> None)))"

text \<open>\<open>TagTransformer.transform\<close> assigns to the tag as it goes, so it returns the
  content and attributes as it leaves them, also when it throws.\<close>

definition transform ::
  "TagDefinition \<Rightarrow> string \<Rightarrow> string \<times> Attributes option
     \<Rightarrow> js_exn option \<times> string \<times> Attributes option" where
  "transform d name ca =
     (let wrap = (\<lambda>e. case e of
                    Parser_Error pe \<Rightarrow> Parser_Error pe
                  | Other_Error msg \<Rightarrow> Parser_Error (fromTransformation name msg));
          step1 = (case transformContent d of
                     Some f \<Rightarrow> if fst ca \<noteq> [] then
                                 (case f (fst ca) of Inl e \<Rightarrow> (Some e, fst ca)
                                                   | Inr c \<Rightarrow> (None, c))
                               else (None, fst ca)
                   | None \<Rightarrow> (None, fst ca))
      in case fst step1 of
           Some e \<Rightarrow> (Some (wrap e), snd step1, snd ca)
         | None \<Rightarrow>
            (case transformAttributes d of
               Some g \<Rightarrow> if snd ca \<noteq> None then
                           (case g (snd ca) of
                              Inl e \<Rightarrow> (Some (wrap e), snd step1, snd ca)
                            | Inr a \<Rightarrow> (None, snd step1, a))
                         else (None, snd step1, snd ca)
             | None \<Rightarrow> (None, snd step1, snd ca)))"

text \<open>\<open>TagTransformer.applyDefaults\<close>\<close>

definition applyDefaults ::
  "TagDefinition \<Rightarrow> string \<times> Attributes option \<Rightarrow> string \<times> Attributes option" where
  "applyDefaults d ca =
     ((case defaultContent d of
         Some dc \<Rightarrow> if dc \<noteq> [] \<and> (fst ca = [] \<or> trim (fst ca) = []) then dc else fst ca
       | None \<Rightarrow> fst ca),
      (case defaultAttributes d of
         Some da \<Rightarrow> Some (spread (Some da) (snd ca))
       | None \<Rightarrow> snd ca))"

section \<open>Configuration (types/config.ts)\<close>

text \<open>The custom \<open>errorHandler\<close> is stored and never called; it is left out.\<close>

record ParserConfig =
  caseSensitive :: "bool option"
  trimWhitespace :: "bool option"
  maxBufferSize :: "int option"
  preserveAttributeOrder :: "bool option"
  maxDepth :: "int option"
  preserveWhitespace :: "bool option"
  autoCloseUnclosed :: "bool option"
  enableNested :: "bool option"

record RequiredParserConfig =
  caseSensitive :: bool
  trimWhitespace :: bool
  maxBufferSize :: int
  preserveAttributeOrder :: bool
  maxDepth :: int
  preserveWhitespace :: bool
  autoCloseUnclosed :: bool
  enableNested :: bool

definition DEFAULT_CONFIG :: RequiredParserConfig where
  "DEFAULT_CONFIG =
     \<lparr> caseSensitive = False, trimWhitespace = True, maxBufferSize = 1024 * 1024,
       preserveAttributeOrder = False, maxDepth = 50, preserveWhitespace = False,
       autoCloseUnclosed = True, enableNested = False \<rparr>"

text \<open>The empty configuration \<open>{}\<close>.\<close>

definition empty_config :: ParserConfig where
  "empty_config =
     \<lparr> ParserConfig.caseSensitive = None, ParserConfig.trimWhitespace = None,
       ParserConfig.maxBufferSize = None, ParserConfig.preserveAttributeOrder = None,
       ParserConfig.maxDepth = None, ParserConfig.preserveWhitespace = None,
       ParserConfig.autoCloseUnclosed = None, ParserConfig.enableNested = None \<rparr>"

text \<open>\<open>x ?? d\<close>\<close>

definition nullish :: "'a option \<Rightarrow> 'a \<Rightarrow> 'a" where
  "nullish x d = (case x of None \<Rightarrow> d | Some v \<Rightarrow> v)"

definition mergeConfig :: "ParserConfig \<Rightarrow> RequiredParserConfig" where
  "mergeConfig c =
     \<lparr> caseSensitive =
         nullish (ParserConfig.caseSensitive c) (RequiredParserConfig.caseSensitive DEFAULT_CONFIG),
       trimWhitespace =
         nullish (ParserConfig.trimWhitespace c) (RequiredParserConfig.trimWhitespace DEFAULT_CONFIG),
       maxBufferSize =
         nullish (ParserConfig.maxBufferSize c) (RequiredParserConfig.maxBufferSize DEFAULT_CONFIG),
       preserveAttributeOrder =
         nullish (ParserConfig.preserveAttributeOrder c)
           (RequiredParserConfig.preserveAttributeOrder DEFAULT_CONFIG),
       maxDepth =
         nullish (ParserConfig.maxDepth c) (RequiredParserConfig.maxDepth DEFAULT_CONFIG),
       preserveWhitespace =
         nullish (ParserConfig.preserveWhitespace c)
           (RequiredParserConfig.preserveWhitespace DEFAULT_CONFIG),
       autoCloseUnclosed =
         nullish (ParserConfig.autoCloseUnclosed c)
           (RequiredParserConfig.autoCloseUnclosed DEFAULT_CONFIG),
       enableNested =
         nullish (ParserConfig.enableNested c) (RequiredParserConfig.enableNested DEFAULT_CONFIG) \<rparr>"

definition validateConfig :: "ParserConfig \<Rightarrow> string list" where
  "validateConfig c =
     (if (case ParserConfig.maxBufferSize c of Some n \<Rightarrow> n \<le> 0 | None \<Rightarrow> False)
      then [''maxBufferSize must be greater than 0''] else [])
     @ (if (case ParserConfig.maxDepth c of Some n \<Rightarrow> n \<le> 0 | None \<Rightarrow> False)
        then [''maxDepth must be greater than 0''] else [])
     @ (if (case ParserConfig.maxBufferSize c of Some n \<Rightarrow> n > 100 * 1024 * 1024 | None \<Rightarrow> False)
        then [''maxBufferSize should not exceed 100MB for performance reasons''] else [])
     @ (if (case ParserConfig.maxDepth c of Some n \<Rightarrow> n > 1000 | None \<Rightarrow> False)
        then [''maxDepth should not exceed 1000 for performance reasons''] else [])"

section \<open>The parse engine (core/stream-parser.ts)\<close>

datatype ParserState = IDLE | PARSING | ERROR | COMPLETED

record ParserStats =
  totalTagsParsed :: nat
  totalBytesProcessed :: nat
  errorCount :: nat
  bufferSize :: nat
  state :: ParserState
  registeredTagsCount :: nat
  maxDepthReached :: int
  totalNestedTags :: nat

record TagStackEntry =
  tag :: nat
  startIndex :: nat
  depth :: int
  path :: string

text \<open>The context of a \<open>parse_error\<close> notification: the chunk or the match.\<close>

datatype ErrorContext = ChunkContext string | MatchContext TagMatch

text \<open>The notifications, with their arguments.\<close>

datatype Event =
    tag_started string "Attributes option"
  | tag_content_update string string
  | tag_completed TagVal
  | tag_opened TagVal int string
  | tag_closed TagVal int string
  | subtree_completed TagVal int
  | document_completed "TagVal list"
  | parsing_complete "TagVal list"
  | parse_error ParserError ErrorContext
  | buffer_cleared
  | stats_updated ParserStats
  | parser_reset
  | parsing_finalized ParserStats

text \<open>
  The engine. \<open>tagRegistry\<close> is the \<open>Map\<close> of definitions in insertion order, the top
  of \<open>tagStack\<close> is its last element, \<open>heap\<close> is the store of the records of nested mode
  and \<open>emitted\<close> lists the notifications raised so far, oldest first. Observers are
  taken not to throw and not to call back into the engine, so \<open>emit\<close> only records the
  notification.
\<close>

record StreamParser =
  config :: RequiredParserConfig
  bufferManager :: BufferManager
  tagMatcher :: TagMatcher
  tagRegistry :: "(string \<times> TagDefinition) list"
  state :: ParserState
  stats :: ParserStats
  tagStack :: "TagStackEntry list"
  currentDepth :: int
  currentPath :: string
  heap :: "NestedTag list"
  emitted :: "Event list"

definition emit :: "StreamParser \<Rightarrow> Event \<Rightarrow> StreamParser" where
  "emit p e = p\<lparr> emitted := emitted p @ [e] \<rparr>"

definition initializeStats :: ParserStats where
  "initializeStats =
     \<lparr> totalTagsParsed = 0, totalBytesProcessed = 0, errorCount = 0, bufferSize = 0,
       state = IDLE, registeredTagsCount = 0, maxDepthReached = 0, totalNestedTags = 0 \<rparr>"

definition new_StreamParser :: "ParserConfig \<Rightarrow> StreamParser" where
  "new_StreamParser c =
     (let cfg = mergeConfig c
      in \<lparr> config = cfg,
           bufferManager = new_BufferManager (RequiredParserConfig.maxBufferSize cfg),
           tagMatcher = \<lparr> TagMatcher.caseSensitive = RequiredParserConfig.caseSensitive cfg \<rparr>,
           tagRegistry = [],
           state = IDLE,
           stats = initializeStats,
           tagStack = [],
           currentDepth = 0,
           currentPath = [],
           heap = [],
           emitted = [] \<rparr>)"

definition updateStats :: "StreamParser \<Rightarrow> StreamParser" where
  "updateStats p =
     (let st = (stats p)\<lparr>
            ParserStats.totalBytesProcessed := getTotalProcessed (bufferManager p),
            bufferSize := getSize (bufferManager p),
            registeredTagsCount := length (tagRegistry p) \<rparr>
      in emit (p\<lparr> stats := st \<rparr>) (stats_updated st))"

definition defineTag :: "StreamParser \<Rightarrow> TagDefinition \<Rightarrow> StreamParser" where
  "defineTag p d =
     updateStats (p\<lparr> tagRegistry := assoc_set (TagDefinition.tagName d) d (tagRegistry p) \<rparr>)"

definition emitError :: "StreamParser \<Rightarrow> ParserError \<Rightarrow> ErrorContext \<Rightarrow> StreamParser" where
  "emitError p e ctx = emit p (parse_error e ctx)"

definition getState :: "StreamParser \<Rightarrow> ParserState" where
  "getState p = StreamParser.state p"

definition getStats :: "StreamParser \<Rightarrow> ParserStats" where
  "getStats p = stats p"

definition getCurrentDepth :: "StreamParser \<Rightarrow> int" where
  "getCurrentDepth p = currentDepth p"

definition getCurrentPath :: "StreamParser \<Rightarrow> string" where
  "getCurrentPath p = currentPath p"

definition getBufferSize :: "StreamParser \<Rightarrow> nat" where
  "getBufferSize p = getSize (bufferManager p)"

definition call_onStart :: "TagDefinition \<Rightarrow> string \<Rightarrow> Attributes option \<Rightarrow> js_exn option" where
  "call_onStart d name attrs = (case onStart d of None \<Rightarrow> None | Some f \<Rightarrow> f name attrs)"

definition call_onComplete :: "TagDefinition \<Rightarrow> TagVal \<Rightarrow> js_exn option" where
  "call_onComplete d t = (case onComplete d of None \<Rightarrow> None | Some f \<Rightarrow> f t)"

subsection \<open>Flat mode\<close>

text \<open>\<open>processTagFlat\<close> returns the tag, or the exception it throws, beside the engine
  as the call leaves it.\<close>

definition processTagFlat :: "StreamParser \<Rightarrow> TagMatch \<Rightarrow> (js_exn + BaseTag) \<times> StreamParser" where
  "processTagFlat p m =
     (case map_of (tagRegistry p) (TagMatch.tagName m) of
        None \<Rightarrow> (Inl (Parser_Error (fromUnknownTag (TagMatch.tagName m))), p)
      | Some d \<Rightarrow>
         (let p1 = emit p (tag_started (TagMatch.tagName m) (TagMatch.attributes m))
          in case call_onStart d (TagMatch.tagName m) (TagMatch.attributes m) of
               Some e \<Rightarrow> (Inl e, p1)
             | None \<Rightarrow>
                (let ca = applyDefaults d
                            (if RequiredParserConfig.trimWhitespace (config p)
                             then trim (TagMatch.content m) else TagMatch.content m,
                             TagMatch.attributes m)
                 in case validate d (TagMatch.tagName m) (fst ca) (snd ca) None of
                      Some e \<Rightarrow> (Inl e, p1)
                    | None \<Rightarrow>
                       (let tr = transform d (TagMatch.tagName m) ca
                        in case fst tr of
                             Some e \<Rightarrow> (Inl e, p1)
                           | None \<Rightarrow>
                              (let t = \<lparr> BaseTag.tagName = TagMatch.tagName m,
                                         BaseTag.content = fst (snd tr),
                                         BaseTag.attributes = snd (snd tr) \<rparr>;
                                   p2 = emit p1 (tag_completed (FlatTag t))
                               in case call_onComplete d (FlatTag t) of
                                    Some e \<Rightarrow> (Inl e, p2)
                                  | None \<Rightarrow> (Inr t, p2))))))"

text \<open>The error that the handler of one match reports.\<close>

definition match_error :: "js_exn \<Rightarrow> ParserError" where
  "match_error e =
     (case e of
        Parser_Error pe \<Rightarrow> pe
      | Other_Error msg \<Rightarrow> new_ParserError ''Failed to process tag'' TRANSFORMATION_FAILED)"

text \<open>The \<open>for\<close> loop of \<open>processBufferFlat\<close> over the matches, with the tags parsed so
  far.\<close>

fun processMatchesFlat ::
  "StreamParser \<Rightarrow> TagMatch list \<Rightarrow> BaseTag list \<Rightarrow> StreamParser \<times> BaseTag list" where
  "processMatchesFlat p [] parsedTags = (p, parsedTags)"
| "processMatchesFlat p (m # ms) parsedTags =
     (case processTagFlat p m of
        (Inr t, p1) \<Rightarrow>
          processMatchesFlat
            (p1\<lparr> stats := (stats p1)\<lparr> totalTagsParsed := totalTagsParsed (stats p1) + 1 \<rparr> \<rparr>)
            ms (parsedTags @ [t])
      | (Inl e, p1) \<Rightarrow>
          processMatchesFlat (emitError p1 (match_error e) (MatchContext m)) ms parsedTags)"

definition removeProcessedContent :: "StreamParser \<Rightarrow> TagMatch list \<Rightarrow> StreamParser" where
  "removeProcessedContent p ms =
     (if ms = [] then p
      else p\<lparr> bufferManager :=
                 snd (consume (bufferManager p) (int (TagMatch.endIndex (last ms)))) \<rparr>)"

definition processBufferFlat :: "StreamParser \<Rightarrow> StreamParser" where
  "processBufferFlat p =
     (let buf = getContent (bufferManager p);
          completeTags = findCompleteTags (tagMatcher p) buf;
          r = processMatchesFlat p completeTags [];
          p1 = removeProcessedContent (fst r) completeTags;
          p2 = (if length (snd r) > 0
                then emit (emit p1 (parsing_complete (map FlatTag (snd r))))
                       (document_completed (map FlatTag (snd r)))
                else p1)
      in updateStats p2)"

subsection \<open>Nested mode\<close>

definition getCurrentParent :: "StreamParser \<Rightarrow> nat option" where
  "getCurrentParent p =
     (if length (tagStack p) > 0 then Some (tag (last (tagStack p))) else None)"

definition buildPath :: "StreamParser \<Rightarrow> string \<Rightarrow> string" where
  "buildPath p name = (if currentPath p \<noteq> [] then currentPath p @ ''/'' @ name else name)"

text \<open>\<open>currentParent.children.push(t)\<close>, for the new record at reference \<open>r\<close>.\<close>

definition add_child :: "StreamParser \<Rightarrow> nat \<Rightarrow> StreamParser" where
  "add_child p r =
     (case getCurrentParent p of
        None \<Rightarrow> p
      | Some par \<Rightarrow>
          p\<lparr> heap := (heap p)[par := (heap p ! par)\<lparr> children := children (heap p ! par) @ [r] \<rparr>] \<rparr>)"

definition handleOpeningTag :: "StreamParser \<Rightarrow> TagMatch \<Rightarrow> js_exn option \<times> StreamParser" where
  "handleOpeningTag p m =
     (if currentDepth p \<ge> RequiredParserConfig.maxDepth (config p)
      then (Some (Parser_Error
              (fromMaxDepth (RequiredParserConfig.maxDepth (config p)) (TagMatch.path m))), p)
      else
       (let definition = map_of (tagRegistry p) (TagMatch.tagName m);
            newTag = \<lparr> BaseTag.tagName = TagMatch.tagName m,
                       BaseTag.content =
                         (case definition of None \<Rightarrow> []
                          | Some d \<Rightarrow> nullish (defaultContent d) []),
                       BaseTag.attributes =
                         Some (spread (case definition of None \<Rightarrow> None
                                       | Some d \<Rightarrow> defaultAttributes d)
                                 (TagMatch.attributes m)),
                       children = [],
                       parent = getCurrentParent p,
                       path = buildPath p (TagMatch.tagName m),
                       depth = currentDepth p + 1,
                       isSelfClosing = False \<rparr>;
            r = length (heap p);
            p1 = add_child (p\<lparr> heap := heap p @ [newTag] \<rparr>) r;
            p2 = p1\<lparr> currentDepth := currentDepth p1 + 1,
                     currentPath := NestedTag.path newTag \<rparr>;
            p3 = p2\<lparr> stats := (stats p2)\<lparr>
                     maxDepthReached := max (maxDepthReached (stats p2)) (currentDepth p2),
                     totalNestedTags := totalNestedTags (stats p2) + 1 \<rparr> \<rparr>;
            p4 = p3\<lparr> tagStack := tagStack p3 @
                     [\<lparr> tag = r, startIndex = TagMatch.startIndex m, depth = currentDepth p3,
                        path = NestedTag.path newTag \<rparr>] \<rparr>;
            p5 = emit p4 (tag_opened (NestedRef r newTag) (currentDepth p4)
                            (NestedTag.path newTag));
            p6 = emit p5 (tag_started (TagMatch.tagName m) (BaseTag.attributes newTag))
        in (case definition of
              None \<Rightarrow> None
            | Some d \<Rightarrow> call_onStart d (TagMatch.tagName m) (BaseTag.attributes newTag),
            p6)))"

text \<open>\<open>completeTag\<close> of the record at reference \<open>r\<close>. The record as validation,
  transformation and the callback leave it is written back to the store.\<close>

definition completeTag :: "StreamParser \<Rightarrow> nat \<Rightarrow> js_exn option \<times> StreamParser" where
  "completeTag p r =
     (let t = heap p ! r;
          checked =
            (case map_of (tagRegistry p) (BaseTag.tagName t) of
               None \<Rightarrow> (None, t)
             | Some d \<Rightarrow>
                (case validate d (BaseTag.tagName t) (BaseTag.content t) (BaseTag.attributes t)
                        (Some (map (\<lambda>c. heap p ! c) (children t))) of
                   Some e \<Rightarrow> (Some e, t)
                 | None \<Rightarrow>
                    (let tr = transform d (BaseTag.tagName t)
                                (BaseTag.content t, BaseTag.attributes t);
                         t1 = t\<lparr> BaseTag.content := fst (snd tr),
                                 BaseTag.attributes := snd (snd tr) \<rparr>
                     in case fst tr of
                          Some e \<Rightarrow> (Some e, t1)
                        | None \<Rightarrow> (call_onComplete d (NestedRef r t1), t1))));
          t2 = snd checked;
          p2 = p\<lparr> heap := (heap p)[r := t2] \<rparr>
      in case fst checked of
           Some e \<Rightarrow> (Some e, p2)
         | None \<Rightarrow>
            (let p3 = p2\<lparr> stats := (stats p2)\<lparr>
                          totalTagsParsed := totalTagsParsed (stats p2) + 1 \<rparr> \<rparr>;
                 p4 = emit p3 (tag_closed (NestedRef r t2) (NestedTag.depth t2) (NestedTag.path t2));
                 p5 = emit p4 (tag_completed (NestedRef r t2))
             in (None,
                 if length (children t2) > 0
                 then emit p5 (subtree_completed (NestedRef r t2) (NestedTag.depth t2))
                 else p5)))"

definition autoCloseTag :: "StreamParser \<Rightarrow> js_exn option \<times> StreamParser" where
  "autoCloseTag p =
     (if length (tagStack p) = 0 then (None, p)
      else
       (let entry = last (tagStack p);
            done = completeTag (p\<lparr> tagStack := butlast (tagStack p) \<rparr>) (tag entry)
        in case fst done of
             Some e \<Rightarrow> (Some e, snd done)
           | None \<Rightarrow>
              (None, (snd done)\<lparr>
                 currentDepth := currentDepth (snd done) - 1,
                 currentPath := (if length (tagStack (snd done)) > 0
                                 then TagStackEntry.path (last (tagStack (snd done)))
                                 else []) \<rparr>)))"

text \<open>Completing a record leaves the stack alone, so each automatic close takes one
  entry off it; the two loops that close automatically end for that reason.\<close>

lemma completeTag_tagStack: "tagStack (snd (completeTag p r)) = tagStack p"
  by (simp add: completeTag_def Let_def emit_def split: option.splits)

lemma autoCloseTag_tagStack:
  "tagStack p \<noteq> [] \<Longrightarrow> length (tagStack (snd (autoCloseTag p))) < length (tagStack p)"
  by (cases "tagStack p" rule: rev_cases)
     (simp_all add: autoCloseTag_def Let_def completeTag_tagStack split: option.splits)

text \<open>The \<open>while\<close> loop of \<open>handleClosingTag\<close>: close automatically until the top of the
  stack has the name of the closing tag or the stack is empty.\<close>

function autoCloseLoop :: "StreamParser \<Rightarrow> string \<Rightarrow> js_exn option \<times> StreamParser" where
  "autoCloseLoop p name =
     (if length (tagStack p) > 0
         \<and> BaseTag.tagName (heap p ! tag (last (tagStack p))) \<noteq> name
      then (case fst (autoCloseTag p) of
              Some e \<Rightarrow> (Some e, snd (autoCloseTag p))
            | None \<Rightarrow> autoCloseLoop (snd (autoCloseTag p)) name)
      else (None, p))"
  by pat_completeness auto
termination
  by (relation "measure (\<lambda>(p, name). length (tagStack p))")
     (simp_all add: autoCloseTag_tagStack)

text \<open>
  \<open>handleClosingTag\<close>. After the loop the source pops the stack and reads the \<open>tag\<close>
  of what it popped; from an empty stack \<open>pop()\<close> returns \<open>undefined\<close> and the read
  throws a \<open>TypeError\<close> (the message is the one of V8).
\<close>

definition handleClosingTag :: "StreamParser \<Rightarrow> TagMatch \<Rightarrow> js_exn option \<times> StreamParser" where
  "handleClosingTag p m =
     (if length (tagStack p) = 0
      then (Some (Parser_Error
              (new_ParserError (''Unexpected closing tag: '' @ TagMatch.tagName m)
                 MISMATCHED_CLOSING_TAG)), p)
      else
       (let currentEntry = last (tagStack p);
            currentName = BaseTag.tagName (heap p ! tag currentEntry);
            closed =
              (if currentName \<noteq> TagMatch.tagName m
               then (if RequiredParserConfig.autoCloseUnclosed (config p)
                     then autoCloseLoop p (TagMatch.tagName m)
                     else (Some (Parser_Error
                             (fromMismatchedClosing currentName (TagMatch.tagName m))), p))
               else (None, p))
        in case fst closed of
             Some e \<Rightarrow> (Some e, snd closed)
           | None \<Rightarrow>
              (let p1 = snd closed
               in if tagStack p1 = []
                  then (Some (Other_Error
                          (''Cannot read properties of undefined (reading '' @ [CHR 0x27]
                             @ ''tag'' @ [CHR 0x27] @ '')'')), p1)
                  else
                   (let completedEntry = last (tagStack p1);
                        done = completeTag (p1\<lparr> tagStack := butlast (tagStack p1) \<rparr>)
                                 (tag completedEntry)
                    in case fst done of
                         Some e \<Rightarrow> (Some e, snd done)
                       | None \<Rightarrow>
                          (None, (snd done)\<lparr>
                             currentDepth := currentDepth (snd done) - 1,
                             currentPath := (if length (tagStack (snd done)) > 0
                                             then TagStackEntry.path (last (tagStack (snd done)))
                                             else []) \<rparr>)))))"

definition handleSelfClosingTag :: "StreamParser \<Rightarrow> TagMatch \<Rightarrow> js_exn option \<times> StreamParser" where
  "handleSelfClosingTag p m =
     (let definition = map_of (tagRegistry p) (TagMatch.tagName m);
          t = \<lparr> BaseTag.tagName = TagMatch.tagName m,
                BaseTag.content =
                  (case definition of None \<Rightarrow> []
                   | Some d \<Rightarrow> nullish (defaultContent d) []),
                BaseTag.attributes =
                  Some (spread (case definition of None \<Rightarrow> None
                                | Some d \<Rightarrow> defaultAttributes d)
                          (TagMatch.attributes m)),
                children = [],
                parent = getCurrentParent p,
                path = buildPath p (TagMatch.tagName m),
                depth = currentDepth p + 1,
                isSelfClosing = True \<rparr>;
          r = length (heap p);
          p1 = add_child (p\<lparr> heap := heap p @ [t] \<rparr>) r
      in completeTag p1 r)"

definition processTagNested :: "StreamParser \<Rightarrow> TagMatch \<Rightarrow> js_exn option \<times> StreamParser" where
  "processTagNested p m =
     (case TagMatch.type m of
        opening_tag \<Rightarrow> handleOpeningTag p m
      | closing_tag \<Rightarrow> handleClosingTag p m
      | self_closing_tag \<Rightarrow> handleSelfClosingTag p m
      | complete_tag \<Rightarrow> (None, p))"

definition handleTextContent :: "StreamParser \<Rightarrow> string \<Rightarrow> StreamParser" where
  "handleTextContent p textContent =
     (if textContent = [] \<or> trim textContent = [] then p
      else (case getCurrentParent p of
              None \<Rightarrow> p
            | Some r \<Rightarrow>
               (let t = heap p ! r;
                    t1 = t\<lparr> BaseTag.content :=
                             (if BaseTag.content t \<noteq> [] then BaseTag.content t @ textContent
                              else textContent) \<rparr>
                in emit (p\<lparr> heap := (heap p)[r := t1] \<rparr>)
                     (tag_content_update (BaseTag.tagName t) textContent))))"

text \<open>A tag that \<open>findNextTag\<close> finds ends after the index the search started from, so
  the sweep of nested mode moves forward with every tag.\<close>

lemma earlier_match_progress:
  assumes "earlier_match tm start ty found earliest = Some e"
    and "\<And>m. found = Some m \<Longrightarrow> matched m \<noteq> []"
    and "\<And>e'. earliest = Some e' \<Longrightarrow> start < TagMatch.endIndex (fst e')"
  shows "start < TagMatch.endIndex (fst e)"
proof (cases found)
  case None
  then show ?thesis using assms by (simp add: earlier_match_def)
next
  case (Some m)
  then have "matched m \<noteq> []" using assms(2) by simp
  then have "start < TagMatch.endIndex (createTagMatch tm m start ty)"
    by (cases "matched m") (simp_all add: createTagMatch_def)
  then show ?thesis
    using assms(1,3) Some by (auto simp add: earlier_match_def split: if_splits)
qed

lemma findNextTag_progress:
  assumes "findNextTag tm buf start = Some t"
  shows "start < TagMatch.endIndex t"
proof -
  define sb where "sb = drop start buf"
  define e1 where
    "e1 = earlier_match tm start self_closing_tag (rx_exec SELF_CLOSING sb 0) None"
  define e2 where "e2 = earlier_match tm start opening_tag (rx_exec OPENING sb 0) e1"
  define e3 where "e3 = earlier_match tm start closing_tag (rx_exec CLOSING sb 0) e2"
  have n1: "\<And>m. rx_exec SELF_CLOSING sb 0 = Some m \<Longrightarrow> matched m \<noteq> []"
    and n2: "\<And>m. rx_exec OPENING sb 0 = Some m \<Longrightarrow> matched m \<noteq> []"
    and n3: "\<And>m. rx_exec CLOSING sb 0 = Some m \<Longrightarrow> matched m \<noteq> []"
    using rx_exec_bounds not_nullable_patterns by blast+
  have p1: "start < TagMatch.endIndex (fst e)" if "e1 = Some e" for e
    by (rule earlier_match_progress [OF that [unfolded e1_def] n1]) simp_all
  have p2: "start < TagMatch.endIndex (fst e)" if "e2 = Some e" for e
    by (rule earlier_match_progress [OF that [unfolded e2_def] n2]) (simp_all add: p1)
  have p3: "start < TagMatch.endIndex (fst e)" if "e3 = Some e" for e
    by (rule earlier_match_progress [OF that [unfolded e3_def] n3]) (simp_all add: p2)
  from assms have "map_option fst e3 = Some t"
    by (simp add: findNextTag_def Let_def e3_def e2_def e1_def sb_def)
  then obtain e where "e3 = Some e" "fst e = t" by auto
  then show ?thesis using p3 by blast
qed

text \<open>The \<open>while\<close> loop of \<open>processBufferNested\<close>, from a value of
  \<open>lastProcessedIndex\<close>; it returns that index as the loop leaves it.\<close>

function nestedLoop ::
  "StreamParser \<Rightarrow> string \<Rightarrow> nat \<Rightarrow> js_exn option \<times> StreamParser \<times> nat" where
  "nestedLoop p buf lastProcessedIndex =
     (if lastProcessedIndex < length buf
      then (case findNextTag (tagMatcher p) buf lastProcessedIndex of
              None \<Rightarrow> (None, p, lastProcessedIndex)
            | Some nextTag \<Rightarrow>
               (let p1 = (if TagMatch.startIndex nextTag > lastProcessedIndex
                          then handleTextContent p
                                 (extractTextContent buf lastProcessedIndex
                                    (TagMatch.startIndex nextTag))
                          else p);
                    done = processTagNested p1 nextTag
                in case fst done of
                     Some e \<Rightarrow> (Some e, snd done, lastProcessedIndex)
                   | None \<Rightarrow> nestedLoop (snd done) buf (TagMatch.endIndex nextTag)))
      else (None, p, lastProcessedIndex))"
  by pat_completeness auto
termination
  apply (relation "measure (\<lambda>(p, buf, i). length buf - i)")
   apply simp
  apply (drule findNextTag_progress)
  apply simp
  done

definition processBufferNested :: "StreamParser \<Rightarrow> js_exn option \<times> StreamParser" where
  "processBufferNested p =
     (let swept = nestedLoop p (getContent (bufferManager p)) 0;
          p1 = fst (snd swept);
          lastProcessedIndex = snd (snd swept)
      in case fst swept of
           Some e \<Rightarrow> (Some e, p1)
         | None \<Rightarrow>
            (None,
             if lastProcessedIndex > 0
             then p1\<lparr> bufferManager :=
                        snd (consume (bufferManager p1) (int lastProcessedIndex)) \<rparr>
             else p1))"

subsection \<open>The operations of the engine\<close>

text \<open>The \<open>try\<close> block of \<open>parse\<close>: the exception that reaches the \<open>catch\<close>, if any,
  and the engine as the block leaves it.\<close>

definition parse_try :: "StreamParser \<Rightarrow> string \<Rightarrow> js_exn option \<times> StreamParser" where
  "parse_try p chunk =
     (let p0 = p\<lparr> StreamParser.state := PARSING \<rparr>;
          appended = append_buf (bufferManager p0) chunk
      in case fst appended of
           Some e \<Rightarrow> (Some e, p0)
         | None \<Rightarrow>
            (let p1 = p0\<lparr> bufferManager := snd appended \<rparr>;
                 processed = (if RequiredParserConfig.enableNested (config p1)
                              then processBufferNested p1
                              else (None, processBufferFlat p1))
             in case fst processed of
                  Some e \<Rightarrow> (Some e, snd processed)
                | None \<Rightarrow> (None, (snd processed)\<lparr> StreamParser.state := COMPLETED \<rparr>)))"

text \<open>The error that the \<open>catch\<close> of \<open>parse\<close> reports.\<close>

definition chunk_error :: "js_exn \<Rightarrow> ParserError" where
  "chunk_error e =
     (case e of
        Parser_Error pe \<Rightarrow> pe
      | Other_Error msg \<Rightarrow> new_ParserError (''Unexpected error: '' @ msg) INVALID_TAG_FORMAT)"

definition parse :: "StreamParser \<Rightarrow> string \<Rightarrow> StreamParser" where
  "parse p chunk =
     (let tried = parse_try p chunk
      in case fst tried of
           None \<Rightarrow> snd tried
         | Some e \<Rightarrow>
            (let p1 = (snd tried)\<lparr> StreamParser.state := ERROR \<rparr>;
                 p2 = p1\<lparr> stats := (stats p1)\<lparr> errorCount := errorCount (stats p1) + 1 \<rparr> \<rparr>
             in emitError p2 (chunk_error e) (ChunkContext chunk)))"

definition reset :: "StreamParser \<Rightarrow> StreamParser" where
  "reset p =
     (let p1 = emit (p\<lparr> bufferManager := clear (bufferManager p) \<rparr>) buffer_cleared;
          p2 = p1\<lparr> tagStack := [], currentDepth := 0, currentPath := [],
                   StreamParser.state := IDLE, stats := initializeStats \<rparr>
      in emit p2 parser_reset)"

text \<open>The \<open>while\<close> loop of \<open>finalize\<close>.\<close>

function finalizeLoop :: "StreamParser \<Rightarrow> js_exn option \<times> StreamParser" where
  "finalizeLoop p =
     (if length (tagStack p) > 0
      then (case fst (autoCloseTag p) of
              Some e \<Rightarrow> (Some e, snd (autoCloseTag p))
            | None \<Rightarrow> finalizeLoop (snd (autoCloseTag p)))
      else (None, p))"
  by pat_completeness auto
termination
  by (relation "measure (\<lambda>p. length (tagStack p))") (simp_all add: autoCloseTag_tagStack)

text \<open>\<open>finalize\<close> is not wrapped: an exception of a completion leaves it.\<close>

definition finalize :: "StreamParser \<Rightarrow> js_exn option \<times> StreamParser" where
  "finalize p =
     (let rootTags = map (\<lambda>e. tag e) (filter (\<lambda>e. TagStackEntry.depth e = 1) (tagStack p));
          closed = finalizeLoop p
      in case fst closed of
           Some e \<Rightarrow> (Some e, snd closed)
         | None \<Rightarrow>
            (let p1 = updateStats ((snd closed)\<lparr> StreamParser.state := COMPLETED \<rparr>);
                 p2 = (if length rootTags > 0
                       then emit p1 (document_completed
                              (map (\<lambda>r. NestedRef r (heap p1 ! r)) rootTags))
                       else p1)
             in (None, emit p2 (parsing_finalized (stats p2)))))"

section \<open>Properties of the input buffer\<close>






section \<open>Properties of the configuration\<close>

text \<open>
  Claim C9 says that a configuration with a buffer size or a depth out of range is
  rejected when the engine is built. The constructor merges the configuration with the
  defaults and never calls \<open>validateConfig\<close>: with \<open>maxBufferSize = 0\<close> and
  \<open>maxDepth = -1\<close> the validation reports both, and the engine is built with these
  limits all the same.
\<close>

theorem constructor_accepts_invalid_limits:
  "validateConfig (empty_config\<lparr> ParserConfig.maxBufferSize := Some 0,
                                 ParserConfig.maxDepth := Some (- 1) \<rparr>)
     = [''maxBufferSize must be greater than 0'', ''maxDepth must be greater than 0'']
   \<and> maxSize (bufferManager (new_StreamParser
         (empty_config\<lparr> ParserConfig.maxBufferSize := Some 0,
                        ParserConfig.maxDepth := Some (- 1) \<rparr>))) = 0
   \<and> RequiredParserConfig.maxDepth (config (new_StreamParser
         (empty_config\<lparr> ParserConfig.maxBufferSize := Some 0,
                        ParserConfig.maxDepth := Some (- 1) \<rparr>))) = - 1"
  by (simp add: validateConfig_def empty_config_def new_StreamParser_def mergeConfig_def
      nullish_def new_BufferManager_def Let_def)

text \<open>
  Claim C9, amended. \<open>validateConfig\<close> reports an error exactly for a configuration
  whose \<open>maxBufferSize\<close> is given and is at most 0 or above 100 MiB, or whose \<open>maxDepth\<close>
  is given and is at most 0 or above 1000. The constructor does not validate: the
  engine takes each limit that is given as it is, and the defaults (1 MiB, 50)
  otherwise.
\<close>

theorem validateConfig_reports_limits:
  "(validateConfig c \<noteq> []) =
     ((\<exists>n. ParserConfig.maxBufferSize c = Some n \<and> (n \<le> 0 \<or> n > 100 * 1024 * 1024))
      \<or> (\<exists>n. ParserConfig.maxDepth c = Some n \<and> (n \<le> 0 \<or> n > 1000)))
   \<and> maxSize (bufferManager (new_StreamParser c))
       = nullish (ParserConfig.maxBufferSize c) (1024 * 1024)
   \<and> RequiredParserConfig.maxBufferSize (config (new_StreamParser c))
       = nullish (ParserConfig.maxBufferSize c) (1024 * 1024)
   \<and> RequiredParserConfig.maxDepth (config (new_StreamParser c))
       = nullish (ParserConfig.maxDepth c) 50"
  by (auto simp add: validateConfig_def new_StreamParser_def mergeConfig_def DEFAULT_CONFIG_def
      nullish_def new_BufferManager_def Let_def split: option.splits)

theorem validateConfig_reports_limits_witness:
  "validateConfig (empty_config\<lparr> ParserConfig.maxDepth := Some 1001 \<rparr>) \<noteq> []
   \<and> RequiredParserConfig.maxDepth (config (new_StreamParser
         (empty_config\<lparr> ParserConfig.maxDepth := Some 1001 \<rparr>))) = 1001
   \<and> maxSize (bufferManager (new_StreamParser
         (empty_config\<lparr> ParserConfig.maxDepth := Some 1001 \<rparr>))) = 1024 * 1024"
  using validateConfig_reports_limits [of "empty_config\<lparr> ParserConfig.maxDepth := Some 1001 \<rparr>"]
  by (simp add: empty_config_def nullish_def)

section \<open>Properties of the engine\<close>

text \<open>An engine of flat mode and one of nested mode, each with the default options
  otherwise and no tag registered.\<close>

definition flat_parser :: StreamParser where
  "flat_parser = new_StreamParser empty_config"

definition nested_parser :: StreamParser where
  "nested_parser = new_StreamParser (empty_config\<lparr> ParserConfig.enableNested := Some True \<rparr>)"

subsection \<open>Reset\<close>

text \<open>
  Claim C8. Right after \<open>reset\<close> the statistics are the initial ones, all counters
  zero, and the buffer is empty, whatever the engine was before. The buffer's own count
  of the bytes processed is not reset, though (\<open>clear\<close> empties the content only), and
  the next refresh of the statistics copies it: in flat mode, parsing \<open>abc\<close>, resetting
  and parsing \<open>de\<close> reports 5 bytes processed, where the claim says 2.
\<close>

theorem reset_keeps_bytes_processed:
  "getStats (reset p) = initializeStats
   \<and> totalTagsParsed (getStats (reset p)) = 0
   \<and> ParserStats.totalBytesProcessed (getStats (reset p)) = 0
   \<and> errorCount (getStats (reset p)) = 0
   \<and> maxDepthReached (getStats (reset p)) = 0
   \<and> totalNestedTags (getStats (reset p)) = 0
   \<and> getBufferSize (reset p) = 0
   \<and> BufferManager.totalBytesProcessed (bufferManager (reset p))
       = BufferManager.totalBytesProcessed (bufferManager p)
   \<and> ParserStats.totalBytesProcessed
         (getStats (parse (reset (parse flat_parser ''abc'')) ''de'')) = 5"
proof -
  have "ParserStats.totalBytesProcessed
          (getStats (parse (reset (parse flat_parser ''abc'')) ''de'')) = 5"
    by code_simp
  then show ?thesis
    by (simp add: reset_def getStats_def getBufferSize_def getSize_def clear_def emit_def
        initializeStats_def Let_def)
qed

subsection \<open>A closing tag that matches no open tag\<close>

text \<open>
  Claim C3. With automatic closing on, nested mode and \<open><a></b>\<close>: the closing tag
  matches no open tag, the loop closes \<open>a\<close> and empties the stack, and then
  \<open>handleClosingTag\<close> pops the empty stack and reads a field of \<open>undefined\<close>. The
  \<open>TypeError\<close> reaches the handler of \<open>parse\<close>: the engine is in the error state, the
  error is counted and reported, and the buffer still holds the whole input, where the
  claim says there is no failure. With automatic closing off the same input fails with
  \<open>MismatchedClosingTag\<close> carrying both names, as the claim says.
\<close>

theorem unmatched_closing_tag_fails:
  "getState (parse nested_parser ''<a></b>'') = ERROR
   \<and> errorCount (getStats (parse nested_parser ''<a></b>'')) = 1
   \<and> tagStack (parse nested_parser ''<a></b>'') = []
   \<and> totalTagsParsed (getStats (parse nested_parser ''<a></b>'')) = 1
   \<and> buffer (bufferManager (parse nested_parser ''<a></b>'')) = ''<a></b>''
   \<and> last (emitted (parse nested_parser ''<a></b>''))
       = parse_error
           (new_ParserError
              (''Unexpected error: Cannot read properties of undefined (reading ''
                 @ [CHR 0x27] @ ''tag'' @ [CHR 0x27] @ '')'')
              INVALID_TAG_FORMAT)
           (ChunkContext ''<a></b>'')
   \<and> last (emitted (parse
         (new_StreamParser (empty_config\<lparr> ParserConfig.enableNested := Some True,
                                          ParserConfig.autoCloseUnclosed := Some False \<rparr>))
         ''<a></b>''))
       = parse_error (fromMismatchedClosing ''a'' ''b'') (ChunkContext ''<a></b>'')"
  by code_simp

subsection \<open>Text between tags in nested mode\<close>

lemma trim_Nil: "trim [] = []"
  by (simp add: trim_def)

text \<open>
  Claim C7 says that a run of text between two matches is added to the innermost open
  record, with a \<open>tag_content_update\<close>, whenever a record is open, also when the run is
  white space only. In \<open><a> </a>\<close> the run is one space and \<open>a\<close> is open: nothing is
  added and no \<open>tag_content_update\<close> is raised. (A run that is not white space is
  dropped as well when no record is open: \<open>x<a></a>\<close> raises none either.)
\<close>

theorem whitespace_run_is_dropped:
  "emitted (parse nested_parser ''<a> </a>'') =
     [tag_opened
        (NestedRef 0 \<lparr> BaseTag.tagName = ''a'', content = [], attributes = Some [],
           children = [], parent = None, path = ''a'', depth = 1, isSelfClosing = False \<rparr>)
        1 ''a'',
      tag_started ''a'' (Some []),
      tag_closed
        (NestedRef 0 \<lparr> BaseTag.tagName = ''a'', content = [], attributes = Some [],
           children = [], parent = None, path = ''a'', depth = 1, isSelfClosing = False \<rparr>)
        1 ''a'',
      tag_completed
        (NestedRef 0 \<lparr> BaseTag.tagName = ''a'', content = [], attributes = Some [],
           children = [], parent = None, path = ''a'', depth = 1, isSelfClosing = False \<rparr>)]
   \<and> map (\<lambda>t. BaseTag.content t) (heap (parse nested_parser ''<a> </a>'')) = [[]]
   \<and> emitted (parse nested_parser ''x<a></a>'') = emitted (parse nested_parser ''<a></a>'')"
  by code_simp

text \<open>
  Claim C7, amended. In the sweep of nested mode, the text between the index the sweep
  has reached and the start of the next tag is handed to \<open>handleTextContent\<close> before
  the tag is processed. \<open>handleTextContent\<close> appends the run to the content of the
  innermost open record and raises \<open>tag_content_update\<close> with the record's name and the
  run exactly when the run is not white space only and a record is open; in every
  other case (a run of white space, or no open record) the run is dropped and the
  engine is unchanged.
\<close>

theorem text_run_appended_unless_blank:
  "handleTextContent p textContent =
     (if trim textContent = [] \<or> tagStack p = [] then p
      else emit
             (p\<lparr> heap := (heap p)[tag (last (tagStack p)) :=
                     (heap p ! tag (last (tagStack p)))\<lparr> BaseTag.content :=
                        BaseTag.content (heap p ! tag (last (tagStack p))) @ textContent \<rparr>] \<rparr>)
             (tag_content_update (BaseTag.tagName (heap p ! tag (last (tagStack p))))
                textContent))
   \<and> (lastProcessedIndex < length buf
        \<and> findNextTag (tagMatcher p) buf lastProcessedIndex = Some nextTag
        \<and> lastProcessedIndex < TagMatch.startIndex nextTag \<longrightarrow>
        nestedLoop p buf lastProcessedIndex =
          (let p1 = handleTextContent p
                      (take (TagMatch.startIndex nextTag - lastProcessedIndex)
                         (drop lastProcessedIndex buf));
               done = processTagNested p1 nextTag
           in case fst done of
                Some e \<Rightarrow> (Some e, snd done, lastProcessedIndex)
              | None \<Rightarrow> nestedLoop (snd done) buf (TagMatch.endIndex nextTag)))"
proof -
  have a: "handleTextContent p textContent =
     (if trim textContent = [] \<or> tagStack p = [] then p
      else emit
             (p\<lparr> heap := (heap p)[tag (last (tagStack p)) :=
                     (heap p ! tag (last (tagStack p)))\<lparr> BaseTag.content :=
                        BaseTag.content (heap p ! tag (last (tagStack p))) @ textContent \<rparr>] \<rparr>)
             (tag_content_update (BaseTag.tagName (heap p ! tag (last (tagStack p))))
                textContent))"
    by (cases "textContent = []")
       (simp_all add: handleTextContent_def getCurrentParent_def Let_def trim_Nil)
  have b: "nestedLoop p buf lastProcessedIndex =
          (let p1 = handleTextContent p
                      (take (TagMatch.startIndex nextTag - lastProcessedIndex)
                         (drop lastProcessedIndex buf));
               done = processTagNested p1 nextTag
           in case fst done of
                Some e \<Rightarrow> (Some e, snd done, lastProcessedIndex)
              | None \<Rightarrow> nestedLoop (snd done) buf (TagMatch.endIndex nextTag))"
    if "lastProcessedIndex < length buf"
      and "findNextTag (tagMatcher p) buf lastProcessedIndex = Some nextTag"
      and "lastProcessedIndex < TagMatch.startIndex nextTag"
    using that
    by (subst nestedLoop.simps) (simp add: extractTextContent_def Let_def)
  from a b show ?thesis by blast
qed

text \<open>The engine after \<open><a>\<close> in nested mode, where \<open>a\<close> is open.\<close>

definition open_a_parser :: StreamParser where
  "open_a_parser = parse nested_parser ''<a>''"

text \<open>The closing tag found in \<open>hi</a>\<close>.\<close>

definition close_a_match :: TagMatch where
  "close_a_match =
     \<lparr> TagMatch.tagName = ''a'', content = [], attributes = None, startIndex = 2,
       endIndex = 6, fullMatch = ''</a>'', type = closing_tag, depth = None, path = None \<rparr>"

theorem text_run_appended_unless_blank_witness:
  "findNextTag (tagMatcher open_a_parser) ''hi</a>'' 0 = Some close_a_match
   \<and> handleTextContent open_a_parser ''hi'' =
       emit
         (open_a_parser\<lparr> heap := (heap open_a_parser)
            [tag (last (tagStack open_a_parser)) :=
               (heap open_a_parser ! tag (last (tagStack open_a_parser)))
                 \<lparr> BaseTag.content :=
                     BaseTag.content (heap open_a_parser ! tag (last (tagStack open_a_parser)))
                     @ ''hi'' \<rparr>] \<rparr>)
         (tag_content_update
            (BaseTag.tagName (heap open_a_parser ! tag (last (tagStack open_a_parser)))) ''hi'')
   \<and> nestedLoop open_a_parser ''hi</a>'' 0 =
       (let p1 = handleTextContent open_a_parser
                   (take (TagMatch.startIndex close_a_match - 0) (drop 0 ''hi</a>''));
            done = processTagNested p1 close_a_match
        in case fst done of
             Some e \<Rightarrow> (Some e, snd done, 0)
           | None \<Rightarrow> nestedLoop (snd done) ''hi</a>'' (TagMatch.endIndex close_a_match))
   \<and> emitted (fst (snd (nestedLoop open_a_parser ''hi</a>'' 0)))
       = emitted open_a_parser
         @ [tag_content_update ''a'' ''hi'',
            tag_closed
              (NestedRef 0 \<lparr> BaseTag.tagName = ''a'', content = ''hi'', attributes = Some [],
                 children = [], parent = None, path = ''a'', depth = 1,
                 isSelfClosing = False \<rparr>)
              1 ''a'',
            tag_completed
              (NestedRef 0 \<lparr> BaseTag.tagName = ''a'', content = ''hi'', attributes = Some [],
                 children = [], parent = None, path = ''a'', depth = 1,
                 isSelfClosing = False \<rparr>)]"
proof -
  note inst = text_run_appended_unless_blank
      [of open_a_parser "''hi''" 0 "''hi</a>''" close_a_match]
  have f: "findNextTag (tagMatcher open_a_parser) ''hi</a>'' 0 = Some close_a_match"
    by code_simp
  have t: "(trim ''hi'' = []) = False" by code_simp
  have s: "(tagStack open_a_parser = []) = False" by code_simp
  have c1: "handleTextContent open_a_parser ''hi'' =
       emit
         (open_a_parser\<lparr> heap := (heap open_a_parser)
            [tag (last (tagStack open_a_parser)) :=
               (heap open_a_parser ! tag (last (tagStack open_a_parser)))
                 \<lparr> BaseTag.content :=
                     BaseTag.content (heap open_a_parser ! tag (last (tagStack open_a_parser)))
                     @ ''hi'' \<rparr>] \<rparr>)
         (tag_content_update
            (BaseTag.tagName (heap open_a_parser ! tag (last (tagStack open_a_parser)))) ''hi'')"
    using inst [THEN conjunct1] by (simp only: t s simp_thms if_False)
  have c2: "nestedLoop open_a_parser ''hi</a>'' 0 =
       (let p1 = handleTextContent open_a_parser
                   (take (TagMatch.startIndex close_a_match - 0) (drop 0 ''hi</a>''));
            done = processTagNested p1 close_a_match
        in case fst done of
             Some e \<Rightarrow> (Some e, snd done, 0)
           | None \<Rightarrow> nestedLoop (snd done) ''hi</a>'' (TagMatch.endIndex close_a_match))"
    by (rule inst [THEN conjunct2, THEN mp]) (simp add: f close_a_match_def)
  have e: "emitted (fst (snd (nestedLoop open_a_parser ''hi</a>'' 0)))
       = emitted open_a_parser
         @ [tag_content_update ''a'' ''hi'',
            tag_closed
              (NestedRef 0 \<lparr> BaseTag.tagName = ''a'', content = ''hi'', attributes = Some [],
                 children = [], parent = None, path = ''a'', depth = 1,
                 isSelfClosing = False \<rparr>)
              1 ''a'',
            tag_completed
              (NestedRef 0 \<lparr> BaseTag.tagName = ''a'', content = ''hi'', attributes = Some [],
                 children = [], parent = None, path = ''a'', depth = 1,
                 isSelfClosing = False \<rparr>)]"
    by code_simp
  from f c1 c2 e show ?thesis by (intro conjI)
qed

subsection \<open>Unknown tags in flat mode\<close>

text \<open>An engine of flat mode with the one tag \<open>known\<close>, and the match of
  \<open><unknown>x</unknown>\<close> in the example of the specification.\<close>

definition known_parser :: StreamParser where
  "known_parser = defineTag flat_parser (plain_definition ''known'')"

definition unknown_match :: TagMatch where
  "unknown_match =
     \<lparr> TagMatch.tagName = ''unknown'', content = ''x'', attributes = None, startIndex = 17,
       endIndex = 37, fullMatch = ''<unknown>x</unknown>'', type = complete_tag, depth = None,
       path = None \<rparr>"

text \<open>
  Claim C6. In flat mode a match whose name has no definition makes \<open>processTagFlat\<close>
  throw \<open>UnknownTag\<close> and change nothing; the loop over the matches catches it, raises
  \<open>parse_error\<close> with that error and the match, and goes on with the next match
  without counting a tag. Parsing \<open><known>ok</known><unknown>x</unknown>\<close> with only
  \<open>known\<close> registered raises, after the \<open>stats_updated\<close> of the registration: the
  start and the completion of \<open>known\<close>, one \<open>parse_error\<close> with \<open>UnknownTag\<close> for
  \<open>unknown\<close>, the batch with the one record, and the statistics; the engine ends in
  the completed state with no error counted.
\<close>

theorem unknown_tag_flat_recoverable:
  "(map_of (tagRegistry p) (TagMatch.tagName m) = None \<longrightarrow>
      processTagFlat p m = (Inl (Parser_Error (fromUnknownTag (TagMatch.tagName m))), p)
      \<and> code (fromUnknownTag (TagMatch.tagName m)) = UNKNOWN_TAG
      \<and> processMatchesFlat p (m # ms) parsedTags =
          processMatchesFlat
            (emitError p (fromUnknownTag (TagMatch.tagName m)) (MatchContext m)) ms parsedTags)
   \<and> emitted (parse known_parser ''<known>ok</known><unknown>x</unknown>'') =
       [stats_updated (initializeStats\<lparr> registeredTagsCount := 1 \<rparr>),
        tag_started ''known'' None,
        tag_completed
          (FlatTag \<lparr> BaseTag.tagName = ''known'', content = ''ok'', attributes = None \<rparr>),
        parse_error (fromUnknownTag ''unknown'') (MatchContext unknown_match),
        parsing_complete
          [FlatTag \<lparr> BaseTag.tagName = ''known'', content = ''ok'', attributes = None \<rparr>],
        document_completed
          [FlatTag \<lparr> BaseTag.tagName = ''known'', content = ''ok'', attributes = None \<rparr>],
        stats_updated
          (initializeStats\<lparr> registeredTagsCount := 1, totalTagsParsed := 1,
             ParserStats.totalBytesProcessed := 37 \<rparr>)]
   \<and> getState (parse known_parser ''<known>ok</known><unknown>x</unknown>'') = COMPLETED
   \<and> errorCount (getStats (parse known_parser ''<known>ok</known><unknown>x</unknown>'')) = 0"
proof -
  have general: "processTagFlat p m = (Inl (Parser_Error (fromUnknownTag (TagMatch.tagName m))), p)
      \<and> code (fromUnknownTag (TagMatch.tagName m)) = UNKNOWN_TAG
      \<and> processMatchesFlat p (m # ms) parsedTags =
          processMatchesFlat
            (emitError p (fromUnknownTag (TagMatch.tagName m)) (MatchContext m)) ms parsedTags"
    if "map_of (tagRegistry p) (TagMatch.tagName m) = None"
    using that
    by (simp add: processTagFlat_def fromUnknownTag_def new_ParserError_def match_error_def)
  have example:
    "emitted (parse known_parser ''<known>ok</known><unknown>x</unknown>'') =
       [stats_updated (initializeStats\<lparr> registeredTagsCount := 1 \<rparr>),
        tag_started ''known'' None,
        tag_completed
          (FlatTag \<lparr> BaseTag.tagName = ''known'', content = ''ok'', attributes = None \<rparr>),
        parse_error (fromUnknownTag ''unknown'') (MatchContext unknown_match),
        parsing_complete
          [FlatTag \<lparr> BaseTag.tagName = ''known'', content = ''ok'', attributes = None \<rparr>],
        document_completed
          [FlatTag \<lparr> BaseTag.tagName = ''known'', content = ''ok'', attributes = None \<rparr>],
        stats_updated
          (initializeStats\<lparr> registeredTagsCount := 1, totalTagsParsed := 1,
             ParserStats.totalBytesProcessed := 37 \<rparr>)]"
    by code_simp
  have final:
    "getState (parse known_parser ''<known>ok</known><unknown>x</unknown>'') = COMPLETED"
    "errorCount (getStats (parse known_parser ''<known>ok</known><unknown>x</unknown>'')) = 0"
    by code_simp+
  from general example final show ?thesis by blast
qed

theorem unknown_tag_flat_recoverable_witness:
  "map_of (tagRegistry known_parser) (TagMatch.tagName unknown_match) = None
   \<and> processTagFlat known_parser unknown_match
       = (Inl (Parser_Error (fromUnknownTag (TagMatch.tagName unknown_match))), known_parser)
   \<and> processMatchesFlat known_parser [unknown_match] [] =
       processMatchesFlat
         (emitError known_parser (fromUnknownTag (TagMatch.tagName unknown_match))
            (MatchContext unknown_match)) [] []"
proof -
  have h: "map_of (tagRegistry known_parser) (TagMatch.tagName unknown_match) = None"
    by code_simp
  from unknown_tag_flat_recoverable [of known_parser unknown_match "[]" "[]", THEN conjunct1,
      THEN mp, OF h] h
  show ?thesis by blast
qed

subsection \<open>Unregistered tags in nested mode\<close>













subsection \<open>Failures inside \<open>parse\<close>\<close>

text \<open>Nothing in the \<open>try\<close> block of \<open>parse\<close> touches the error counter.\<close>


lemma emit_errorCount: "errorCount (stats (emit p e)) = errorCount (stats p)"
  by (simp add: emit_def)
























end
